theory Spec2Isabelle
  imports Complex_Main
begin

section \<open>Heatmap utilities: speed colours, labels, projection, distance, statistics\<close>

text \<open>
  The development embeds the utility module of the heatmap application
  (\<^verbatim>\<open>heatmapUtils\<close>: \<^verbatim>\<open>getSpeedColor\<close>, \<^verbatim>\<open>getSpeedColorComponents\<close>,
  \<^verbatim>\<open>getHeatmapGradient\<close>, \<^verbatim>\<open>getSpeedLabel\<close>, \<^verbatim>\<open>calculateDistance\<close>,
  \<^verbatim>\<open>geoToScreen\<close>, \<^verbatim>\<open>calculateStats\<close>) and the histogram of the
  \<^verbatim>\<open>StatsPanel\<close> component.

  A JavaScript \<^verbatim>\<open>number\<close> is modelled by a \<^typ>\<open>real\<close>: the properties below are
  stated over the real numbers, so that rounding of binary floating point, NaN and the
  infinities are outside the model. Quantities that the program only ever holds as whole
  numbers (colour channels after \<^verbatim>\<open>Math.round\<close>, array lengths, counters) are
  \<^typ>\<open>int\<close> or \<^typ>\<open>nat\<close>.
\<close>

subsection \<open>Types\<close>

datatype SpeedQuality = Excellent | Good | Fair | Poor | Very_Poor | No_Signal

record RGBColor =
  r :: int
  g :: int
  b :: int

record RGBColorWithHex = RGBColor +
  hex :: string

record HeatmapGradient =
  inner :: string
  middle :: string
  outer :: string
  hex :: string

record DataPoint =
  id_point :: "real + string"
  latitude :: real
  longitude :: real
  speed :: real
  timestamp :: string
  color :: string
  gradient :: "HeatmapGradient option"
  label :: "SpeedQuality option"

record GradientStop =
  pos :: real
  color :: RGBColor

record MapRegion =
  latitude :: real
  longitude :: real
  latitudeDelta :: real
  longitudeDelta :: real

record DataPointStats =
  count :: nat
  average :: real
  min_speed :: real
  max_speed :: real
  excellent :: nat
  good :: nat
  fair :: nat
  poor :: nat
  veryPoor :: nat

subsection \<open>Constants\<close>

record SpeedThresholds =
  EXCELLENT :: real
  GOOD :: real
  FAIR :: real
  POOR :: real
  VERY_POOR :: real

definition SPEED_THRESHOLDS :: SpeedThresholds where
  "SPEED_THRESHOLDS = \<lparr>EXCELLENT = 50, GOOD = 25, FAIR = 10, POOR = 5, VERY_POOR = 1\<rparr>"

definition MAX_SPEED :: real where
  "MAX_SPEED = 100"

subsection \<open>Gradient stops\<close>

definition GRADIENT_STOPS :: "GradientStop list" where
  "GRADIENT_STOPS =
    [\<lparr>pos = 0.00, color = \<lparr>r = 139, g = 0, b = 0\<rparr>\<rparr>,
     \<lparr>pos = 0.05, color = \<lparr>r = 255, g = 0, b = 0\<rparr>\<rparr>,
     \<lparr>pos = 0.15, color = \<lparr>r = 255, g = 69, b = 0\<rparr>\<rparr>,
     \<lparr>pos = 0.25, color = \<lparr>r = 255, g = 140, b = 0\<rparr>\<rparr>,
     \<lparr>pos = 0.35, color = \<lparr>r = 255, g = 165, b = 0\<rparr>\<rparr>,
     \<lparr>pos = 0.45, color = \<lparr>r = 255, g = 215, b = 0\<rparr>\<rparr>,
     \<lparr>pos = 0.55, color = \<lparr>r = 255, g = 255, b = 0\<rparr>\<rparr>,
     \<lparr>pos = 0.65, color = \<lparr>r = 173, g = 255, b = 47\<rparr>\<rparr>,
     \<lparr>pos = 0.75, color = \<lparr>r = 124, g = 252, b = 0\<rparr>\<rparr>,
     \<lparr>pos = 0.85, color = \<lparr>r = 50, g = 205, b = 50\<rparr>\<rparr>,
     \<lparr>pos = 0.95, color = \<lparr>r = 0, g = 200, b = 0\<rparr>\<rparr>,
     \<lparr>pos = 1.00, color = \<lparr>r = 0, g = 180, b = 0\<rparr>\<rparr>]"

subsection \<open>Colour interpolation\<close>

text \<open>
  \<^verbatim>\<open>Math.round\<close> rounds to the nearest integer, a tie going up: \<open>\<lfloor>x + 1/2\<rfloor>\<close>.
\<close>

definition Math_round :: "real \<Rightarrow> int" where
  "Math_round v = \<lfloor>v + 1 / 2\<rfloor>"

definition lerpColor :: "RGBColor \<Rightarrow> RGBColor \<Rightarrow> real \<Rightarrow> RGBColor" where
  "lerpColor color1 color2 t =
     \<lparr>r = Math_round (of_int (r color1) + (of_int (r color2) - of_int (r color1)) * t),
      g = Math_round (of_int (g color1) + (of_int (g color2) - of_int (g color1)) * t),
      b = Math_round (of_int (b color1) + (of_int (b color2) - of_int (b color1)) * t)\<rparr>"

text \<open>
  The blend of the linear and the logarithmic scale that \<^verbatim>\<open>getSpeedColor\<close> names
  \<^verbatim>\<open>normalized\<close>.
\<close>

definition normalized :: "real \<Rightarrow> real" where
  "normalized speedMbps =
     (let normalizedLinear = min (max speedMbps 0 / MAX_SPEED) 1;
          logScale = (if speedMbps > 0
                      then log 10 (speedMbps + 1) / log 10 (MAX_SPEED + 1) else 0)
      in normalizedLinear * 0.4 + logScale * 0.6)"

text \<open>
  The loop of \<^verbatim>\<open>getSpeedColor\<close> over \<open>i = 0, \<dots>, length - 2\<close>: the first pair of
  neighbouring stops whose positions enclose the value, or nothing when the loop ends
  without a \<^verbatim>\<open>break\<close>.
\<close>

fun findStops :: "real \<Rightarrow> GradientStop list \<Rightarrow> (GradientStop \<times> GradientStop) option" where
  "findStops v (s1 # s2 # rest) =
     (if v \<ge> pos s1 \<and> v \<le> pos s2 then Some (s1, s2) else findStops v (s2 # rest))"
| "findStops v _ = None"

text \<open>
  \<^verbatim>\<open>lowerStop\<close> and \<^verbatim>\<open>upperStop\<close> start as the first and the last stop and are
  replaced by the pair the loop finds.
\<close>

definition bracketStops :: "real \<Rightarrow> GradientStop \<times> GradientStop" where
  "bracketStops v =
     (case findStops v GRADIENT_STOPS of
        Some p \<Rightarrow> p
      | None \<Rightarrow> (GRADIENT_STOPS ! 0, GRADIENT_STOPS ! (length GRADIENT_STOPS - 1)))"

definition speedColor :: "real \<Rightarrow> RGBColor" where
  "speedColor speedMbps =
     (let v = normalized speedMbps;
          (lowerStop, upperStop) = bracketStops v;
          range = pos upperStop - pos lowerStop;
          t = (if range > 0 then (v - pos lowerStop) / range else 0)
      in lerpColor (color lowerStop) (color upperStop) t)"

subsection \<open>Numbers as text\<close>

text \<open>
  A template literal turns a number into text. For a whole number (of magnitude below
  \<open>10\<^sup>2\<^sup>1\<close>) that text is its decimal digits after a minus sign when it is negative.
\<close>

fun show_nat :: "nat \<Rightarrow> string" where
  "show_nat n =
     (if n < 10 then [''0123456789'' ! n]
      else show_nat (n div 10) @ [''0123456789'' ! (n mod 10)])"

declare show_nat.simps [simp del]

definition show_int :: "int \<Rightarrow> string" where
  "show_int i = (if i < 0 then CHR ''-'' # show_nat (nat (- i)) else show_nat (nat i))"

text \<open>
  The text of a number that is not whole (an opacity such as \<open>0.6\<close>) is the shortest
  decimal that reads back as the same double; it is not a function of the real number
  alone, so the conversion is a parameter \<open>numStr\<close> of the functions that print an
  opacity.
\<close>

definition getSpeedColor :: "(real \<Rightarrow> string) \<Rightarrow> real \<Rightarrow> real \<Rightarrow> string" where
  "getSpeedColor numStr speedMbps opacity =
     (let c = speedColor speedMbps
      in ''rgba('' @ show_int (r c) @ '', '' @ show_int (g c) @ '', '' @ show_int (b c) @
         '', '' @ numStr opacity @ '')'')"

subsection \<open>Reading the channels back from the text\<close>

text \<open>
  \<^verbatim>\<open>getSpeedColorComponents\<close> applies the regular expression
  \<^verbatim>\<open>/rgba?\((\d+),\s*(\d+),\s*(\d+)/\<close> to the text of the colour. A digit is never a
  comma, white space is never a digit and \<^verbatim>\<open>a\<close> is never a parenthesis, so the greedy
  repetitions never have to give anything back and the expression is matched from a given
  position by one pass from left to right. The texts are made of ASCII characters; of the
  white space that \<^verbatim>\<open>\s\<close> stands for, the characters below 256 are listed.
\<close>

definition is_digit :: "char \<Rightarrow> bool" where
  "is_digit ch = (ch \<in> set ''0123456789'')"

definition is_space :: "char \<Rightarrow> bool" where
  "is_space ch = (ch \<in> {CHR '' '', CHR 0x09, CHR 0x0A, CHR 0x0B, CHR 0x0C, CHR 0x0D, CHR 0xA0})"

text \<open>One or more digits: the digits read and the rest of the text.\<close>

definition digits1 :: "string \<Rightarrow> (string \<times> string) option" where
  "digits1 s =
     (if takeWhile is_digit s = [] then None
      else Some (takeWhile is_digit s, dropWhile is_digit s))"

text \<open>A comma followed by any white space: the rest of the text.\<close>

definition comma_spaces :: "string \<Rightarrow> string option" where
  "comma_spaces s =
     (case s of
        ch # rest \<Rightarrow> (if ch = CHR '','' then Some (dropWhile is_space rest) else None)
      | [] \<Rightarrow> None)"

text \<open>The expression matched at the start of the text: its three groups.\<close>

definition match_here :: "string \<Rightarrow> (string \<times> string \<times> string) option" where
  "match_here s =
     (if take 3 s = ''rgb'' then
        (let s1 = drop 3 s;
             s2 = (if take 1 s1 = ''a'' then drop 1 s1 else s1)
         in if take 1 s2 = ''('' then
              (case digits1 (drop 1 s2) of
                 None \<Rightarrow> None
               | Some (m1, s3) \<Rightarrow>
                  (case comma_spaces s3 of
                     None \<Rightarrow> None
                   | Some s4 \<Rightarrow>
                      (case digits1 s4 of
                         None \<Rightarrow> None
                       | Some (m2, s5) \<Rightarrow>
                          (case comma_spaces s5 of
                             None \<Rightarrow> None
                           | Some s6 \<Rightarrow>
                              (case digits1 s6 of
                                 None \<Rightarrow> None
                               | Some (m3, s7) \<Rightarrow> Some (m1, m2, m3))))))
            else None)
      else None)"

text \<open>\<^verbatim>\<open>String.prototype.match\<close>: the match at the leftmost position that has one.\<close>

fun match_rgba :: "string \<Rightarrow> (string \<times> string \<times> string) option" where
  "match_rgba [] = match_here []"
| "match_rgba (ch # rest) =
     (case match_here (ch # rest) of
        Some m \<Rightarrow> Some m
      | None \<Rightarrow> match_rgba rest)"

text \<open>\<^verbatim>\<open>parseInt(s, 10)\<close> on a text of decimal digits.\<close>

definition digit_value :: "char \<Rightarrow> nat" where
  "digit_value ch = of_char ch - 48"

definition parseInt :: "string \<Rightarrow> int" where
  "parseInt s = int (foldl (\<lambda>acc ch. acc * 10 + digit_value ch) 0 s)"

text \<open>\<^verbatim>\<open>n.toString(16)\<close> for a natural number, and \<^verbatim>\<open>padStart(2, '0')\<close>.\<close>

fun toString16 :: "nat \<Rightarrow> string" where
  "toString16 n =
     (if n < 16 then [''0123456789abcdef'' ! n]
      else toString16 (n div 16) @ [''0123456789abcdef'' ! (n mod 16)])"

declare toString16.simps [simp del]

definition padStart2 :: "string \<Rightarrow> string" where
  "padStart2 s = replicate (2 - length s) CHR ''0'' @ s"

definition getSpeedColorComponents :: "(real \<Rightarrow> string) \<Rightarrow> real \<Rightarrow> RGBColorWithHex" where
  "getSpeedColorComponents numStr speedMbps =
     (let rgba = getSpeedColor numStr speedMbps 1
      in case match_rgba rgba of
           Some (m1, m2, m3) \<Rightarrow>
             (let rv = parseInt m1; gv = parseInt m2; bv = parseInt m3
              in \<lparr>r = rv, g = gv, b = bv,
                  RGBColorWithHex.hex = ''#'' @ padStart2 (toString16 (nat rv)) @ padStart2 (toString16 (nat gv)) @
                        padStart2 (toString16 (nat bv))\<rparr>)
         | None \<Rightarrow> \<lparr>r = 128, g = 128, b = 128, RGBColorWithHex.hex = ''#808080''\<rparr>)"

definition getHeatmapGradient :: "(real \<Rightarrow> string) \<Rightarrow> real \<Rightarrow> HeatmapGradient" where
  "getHeatmapGradient numStr speedMbps =
     (let baseColor = getSpeedColorComponents numStr speedMbps;
          channels = show_int (r baseColor) @ '', '' @ show_int (g baseColor) @ '', '' @
                     show_int (b baseColor)
      in \<lparr>inner = ''rgba('' @ channels @ '', 0.9)'',
          middle = ''rgba('' @ channels @ '', 0.5)'',
          outer = ''rgba('' @ channels @ '', 0.15)'',
          hex = RGBColorWithHex.hex baseColor\<rparr>)"

subsection \<open>Statistics\<close>

text \<open>
  \<^verbatim>\<open>Math.min\<close> and \<^verbatim>\<open>Math.max\<close> of a non-empty list of arguments, taken from left
  to right. (Without arguments they return the infinities, which the model does not have;
  every call below passes at least one argument.)
\<close>

fun Math_min :: "'a::linorder list \<Rightarrow> 'a" where
  "Math_min (v # vs) = foldl min v vs"

fun Math_max :: "'a::linorder list \<Rightarrow> 'a" where
  "Math_max (v # vs) = foldl max v vs"

definition calculateStats :: "DataPoint list \<Rightarrow> DataPointStats" where
  "calculateStats dataPoints =
     (if length dataPoints = 0 then
        \<lparr>count = 0, average = 0, min_speed = 0, max_speed = 0,
         excellent = 0, good = 0, fair = 0, poor = 0, veryPoor = 0\<rparr>
      else
        (let speeds = map speed dataPoints;
             total = foldl (\<lambda>acc v. acc + v) 0 speeds
         in \<lparr>count = length dataPoints,
             average = total / real (length speeds),
             min_speed = Math_min speeds,
             max_speed = Math_max speeds,
             excellent = length (filter (\<lambda>p. speed p \<ge> EXCELLENT SPEED_THRESHOLDS) dataPoints),
             good = length (filter (\<lambda>p. speed p \<ge> GOOD SPEED_THRESHOLDS \<and>
                                          speed p < EXCELLENT SPEED_THRESHOLDS) dataPoints),
             fair = length (filter (\<lambda>p. speed p \<ge> FAIR SPEED_THRESHOLDS \<and>
                                          speed p < GOOD SPEED_THRESHOLDS) dataPoints),
             poor = length (filter (\<lambda>p. speed p \<ge> POOR SPEED_THRESHOLDS \<and>
                                          speed p < FAIR SPEED_THRESHOLDS) dataPoints),
             veryPoor = length (filter (\<lambda>p. speed p < POOR SPEED_THRESHOLDS) dataPoints)\<rparr>))"

subsection \<open>Speed category label\<close>

definition getSpeedLabel :: "real \<Rightarrow> SpeedQuality" where
  "getSpeedLabel speedMbps =
     (if speedMbps \<ge> EXCELLENT SPEED_THRESHOLDS then Excellent
      else if speedMbps \<ge> GOOD SPEED_THRESHOLDS then Good
      else if speedMbps \<ge> FAIR SPEED_THRESHOLDS then Fair
      else if speedMbps \<ge> POOR SPEED_THRESHOLDS then Poor
      else if speedMbps \<ge> VERY_POOR SPEED_THRESHOLDS then Very_Poor
      else No_Signal)"

subsection \<open>Great-circle distance\<close>

text \<open>
  \<^verbatim>\<open>Math.atan2(y, x)\<close> on real arguments: the angle of the point \<open>(x, y)\<close> in
  \<open>(-\<pi>, \<pi>]\<close>, with \<^verbatim>\<open>Math.atan2(0, 0) = 0\<close>.
\<close>

definition atan2 :: "real \<Rightarrow> real \<Rightarrow> real" where
  "atan2 y x =
     (if x > 0 then arctan (y / x)
      else if x < 0 then (if y \<ge> 0 then arctan (y / x) + pi else arctan (y / x) - pi)
      else if y > 0 then pi / 2
      else if y < 0 then - pi / 2
      else 0)"

definition haversine_a :: "real \<Rightarrow> real \<Rightarrow> real \<Rightarrow> real \<Rightarrow> real" where
  "haversine_a lat1 lon1 lat2 lon2 =
     (let phi1 = (lat1 * pi) / 180;
          phi2 = (lat2 * pi) / 180;
          dphi = ((lat2 - lat1) * pi) / 180;
          dlambda = ((lon2 - lon1) * pi) / 180
      in sin (dphi / 2) * sin (dphi / 2) +
         cos phi1 * cos phi2 * sin (dlambda / 2) * sin (dlambda / 2))"

definition calculateDistance :: "real \<Rightarrow> real \<Rightarrow> real \<Rightarrow> real \<Rightarrow> real" where
  "calculateDistance lat1 lon1 lat2 lon2 =
     (let R = 6371000;
          a = haversine_a lat1 lon1 lat2 lon2;
          c = 2 * atan2 (sqrt a) (sqrt (1 - a))
      in R * c)"

subsection \<open>Linear region projection\<close>

definition geoToScreen :: "real \<Rightarrow> real \<Rightarrow> MapRegion \<Rightarrow> real \<Rightarrow> real \<Rightarrow> real \<times> real" where
  "geoToScreen lat lng region width height =
     (let x = ((lng - (longitude region - longitudeDelta region / 2)) / longitudeDelta region) * width;
          y = ((latitude region + latitudeDelta region / 2 - lat) / latitudeDelta region) * height
      in (x, y))"

subsection \<open>The statistics panel\<close>

text \<open>
  The panel shows four coverage classes; the number it prints after \<^verbatim>\<open>Poor:\<close>, which
  is also the weight of the fourth segment of the coverage bar, is
  \<^verbatim>\<open>stats.poor + stats.veryPoor\<close>.
\<close>

record HistogramBar =
  count :: nat
  height :: real
  speed :: real
  color :: string

definition panelPoor :: "DataPoint list \<Rightarrow> nat" where
  "panelPoor dataPoints = (let stats = calculateStats dataPoints in poor stats + veryPoor stats)"

definition buckets :: nat where
  "buckets = 10"

definition bucketIndex :: "real \<Rightarrow> int" where
  "bucketIndex v = min \<lfloor>(v / MAX_SPEED) * real buckets\<rfloor> (int buckets - 1)"

text \<open>
  \<^verbatim>\<open>distribution[bucketIndex]++\<close>. The index never exceeds the last bucket; at a
  negative index the statement sets a property of the array object and leaves the
  elements of the array as they are.
\<close>

definition bump :: "nat list \<Rightarrow> int \<Rightarrow> nat list" where
  "bump d i = (if 0 \<le> i \<and> nat i < length d then d[nat i := d ! nat i + 1] else d)"

definition distribution :: "DataPoint list \<Rightarrow> nat list" where
  "distribution dataPoints =
     foldl (\<lambda>d point. bump d (bucketIndex (DataPoint.speed point))) (replicate buckets 0) dataPoints"

definition maxCount :: "DataPoint list \<Rightarrow> nat" where
  "maxCount dataPoints = Math_max (distribution dataPoints @ [1])"

definition histogram :: "(real \<Rightarrow> string) \<Rightarrow> DataPoint list \<Rightarrow> HistogramBar list" where
  "histogram numStr dataPoints =
     (if length dataPoints = 0 then []
      else
        map (\<lambda>(cnt, index).
               \<lparr>HistogramBar.count = cnt,
                height = (real cnt / real (maxCount dataPoints)) * 100,
                HistogramBar.speed = ((real index + 0.5) / real buckets) * MAX_SPEED,
                HistogramBar.color =
                  getSpeedColor numStr (((real index + 0.5) / real buckets) * MAX_SPEED) 1\<rparr>)
            (zip (distribution dataPoints) [0..<length (distribution dataPoints)]))"

section \<open>Properties\<close>

subsection \<open>Speed labels\<close>

text \<open>
  C3: \<^verbatim>\<open>getSpeedLabel\<close> is a total function of the speed that classifies by inclusive
  lower bounds tried from the highest down: at least 50 is Excellent, at least 25 Good,
  at least 10 Fair, at least 5 Poor, at least 1 Very Poor, anything else No Signal.
  In particular 50 is Excellent, 49.999 is Good, and every negative speed is No Signal.
\<close>

theorem getSpeedLabel_thresholds:
  "(50 \<le> s \<longrightarrow> getSpeedLabel s = Excellent) \<and>
   (25 \<le> s \<and> s < 50 \<longrightarrow> getSpeedLabel s = Good) \<and>
   (10 \<le> s \<and> s < 25 \<longrightarrow> getSpeedLabel s = Fair) \<and>
   (5 \<le> s \<and> s < 10 \<longrightarrow> getSpeedLabel s = Poor) \<and>
   (1 \<le> s \<and> s < 5 \<longrightarrow> getSpeedLabel s = Very_Poor) \<and>
   (s < 1 \<longrightarrow> getSpeedLabel s = No_Signal) \<and>
   (s < 0 \<longrightarrow> getSpeedLabel s = No_Signal) \<and>
   getSpeedLabel 50 = Excellent \<and>
   getSpeedLabel 49.999 = Good"
  by (simp add: getSpeedLabel_def SPEED_THRESHOLDS_def)

theorem getSpeedLabel_thresholds_witness:
  "getSpeedLabel 75 = Excellent \<and> getSpeedLabel 25 = Good \<and> getSpeedLabel 10 = Fair \<and>
   getSpeedLabel 5 = Poor \<and> getSpeedLabel 1 = Very_Poor \<and> getSpeedLabel 0.5 = No_Signal \<and>
   getSpeedLabel (- 3) = No_Signal"
  using getSpeedLabel_thresholds [of 75] getSpeedLabel_thresholds [of 25]
    getSpeedLabel_thresholds [of 10] getSpeedLabel_thresholds [of 5]
    getSpeedLabel_thresholds [of 1] getSpeedLabel_thresholds [of "0.5"]
    getSpeedLabel_thresholds [of "- 3"]
  by simp

subsection \<open>Projection\<close>

text \<open>
  C8: \<^verbatim>\<open>geoToScreen\<close> returns exactly
  \<open>x = (longitude - (region.longitude - region.longitudeDelta / 2)) / region.longitudeDelta * width\<close>
  and
  \<open>y = (region.latitude + region.latitudeDelta / 2 - latitude) / region.latitudeDelta * height\<close>;
  when both deltas of the region are nonzero, the centre of the region is sent to the
  centre of the viewport, \<open>(width / 2, height / 2)\<close>.
\<close>

theorem geoToScreen_formula:
  "geoToScreen lat lng region w h =
     ((lng - (longitude region - longitudeDelta region / 2)) / longitudeDelta region * w,
      (latitude region + latitudeDelta region / 2 - lat) / latitudeDelta region * h) \<and>
   (longitudeDelta region \<noteq> 0 \<and> latitudeDelta region \<noteq> 0 \<longrightarrow>
      geoToScreen (latitude region) (longitude region) region w h =
        (w / 2, h / 2))"
  by (simp add: geoToScreen_def Let_def)

theorem geoToScreen_formula_witness:
  "geoToScreen 10 20
     \<lparr>latitude = 10, longitude = 20, latitudeDelta = 2, longitudeDelta = 4\<rparr> 300 200 =
   (150, 100)"
  using geoToScreen_formula
    [of 10 20 "\<lparr>latitude = 10, longitude = 20, latitudeDelta = 2, longitudeDelta = 4\<rparr>" 300 200]
  by simp

subsection \<open>Distance\<close>

lemma sin_half_angle_swap:
  fixes u v :: real
  shows "sin (((u - v) * pi) / 180 / 2) * sin (((u - v) * pi) / 180 / 2) =
         sin (((v - u) * pi) / 180 / 2) * sin (((v - u) * pi) / 180 / 2)"
proof -
  have "((u - v) * pi) / 180 / 2 = - (((v - u) * pi) / 180 / 2)"
    by (simp add: field_simps)
  then show ?thesis
    by (simp only: sin_minus)
qed

lemma haversine_a_sym:
  "haversine_a lat1 lon1 lat2 lon2 = haversine_a lat2 lon2 lat1 lon1"
  unfolding haversine_a_def Let_def
  using sin_half_angle_swap [of lat1 lat2] sin_half_angle_swap [of lon1 lon2]
  by (simp add: mult.commute mult.left_commute)

text \<open>
  The distance is not constantly zero: two antipodal points of the equator are half the
  circumference apart.
\<close>

lemma calculateDistance_antipodal:
  "calculateDistance 0 0 0 180 = 6371000 * pi"
  by (simp add: calculateDistance_def haversine_a_def atan2_def Let_def)

text \<open>
  C9: \<^verbatim>\<open>calculateDistance\<close>, the Haversine distance on a sphere of radius
  6,371,000 m, is 0 between a point and itself and does not depend on the order of its
  two endpoints.
\<close>

theorem calculateDistance_zero_and_symmetric:
  "calculateDistance lat lng lat lng = 0 \<and>
   calculateDistance lat1 lon1 lat2 lon2 = calculateDistance lat2 lon2 lat1 lon1"
  by (simp add: calculateDistance_def haversine_a_sym [of lat1 lon1 lat2 lon2])
    (simp add: haversine_a_def atan2_def Let_def)

subsection \<open>Colour mapping\<close>

lemma log_10_101_neq_0: "log 10 101 \<noteq> (0::real)"
proof -
  have "0 < log 10 (101::real)" by simp
  then show ?thesis by linarith
qed

lemma normalized_0: "normalized 0 = 0"
  by (simp add: normalized_def MAX_SPEED_def)

lemma normalized_100: "normalized 100 = 1"
  using log_10_101_neq_0 by (simp add: normalized_def MAX_SPEED_def)

lemma speedColor_0: "speedColor 0 = \<lparr>r = 139, g = 0, b = 0\<rparr>"
proof -
  have "bracketStops 0 = (GRADIENT_STOPS ! 0, GRADIENT_STOPS ! 1)"
    by (simp add: bracketStops_def GRADIENT_STOPS_def)
  then show ?thesis
    by (simp add: speedColor_def normalized_0 lerpColor_def Math_round_def GRADIENT_STOPS_def)
qed

lemma speedColor_100: "speedColor 100 = \<lparr>r = 0, g = 180, b = 0\<rparr>"
proof -
  have "bracketStops 1 = (GRADIENT_STOPS ! 10, GRADIENT_STOPS ! 11)"
    by (simp add: bracketStops_def GRADIENT_STOPS_def)
  then show ?thesis
    by (simp add: speedColor_def normalized_100 lerpColor_def Math_round_def GRADIENT_STOPS_def)
qed

lemma show_int_examples:
  "show_int 0 = ''0''" "show_int 139 = ''139''" "show_int 180 = ''180''"
  "show_int 128 = ''128''" "show_int 234 = ''234''" "show_int (- 41) = ''-41''"
  by (simp_all add: show_int_def show_nat.simps)

text \<open>
  C2: \<^verbatim>\<open>getSpeedColor(0)\<close> is the colour of the first gradient stop, dark red
  \<open>(139, 0, 0)\<close>, and \<^verbatim>\<open>getSpeedColor(100)\<close> is the colour of the last stop, dark
  green \<open>(0, 180, 0)\<close>; for any opacity the text returned carries these channel values.
\<close>

theorem getSpeedColor_endpoints:
  "speedColor 0 = GradientStop.color (GRADIENT_STOPS ! 0) \<and>
   speedColor 100 = GradientStop.color (GRADIENT_STOPS ! (length GRADIENT_STOPS - 1)) \<and>
   getSpeedColor numStr 0 opacity = ''rgba(139, 0, 0, '' @ numStr opacity @ '')'' \<and>
   getSpeedColor numStr 100 opacity = ''rgba(0, 180, 0, '' @ numStr opacity @ '')''"
proof -
  have "speedColor 0 = GradientStop.color (GRADIENT_STOPS ! 0)"
    by (simp add: speedColor_0) (simp add: GRADIENT_STOPS_def)
  moreover have "speedColor 100 = GradientStop.color (GRADIENT_STOPS ! (length GRADIENT_STOPS - 1))"
    by (simp add: speedColor_100) (simp add: GRADIENT_STOPS_def)
  moreover have "getSpeedColor numStr 0 opacity = ''rgba(139, 0, 0, '' @ numStr opacity @ '')''"
    by (simp add: getSpeedColor_def speedColor_0 show_int_examples)
  moreover have "getSpeedColor numStr 100 opacity = ''rgba(0, 180, 0, '' @ numStr opacity @ '')''"
    by (simp add: getSpeedColor_def speedColor_100 show_int_examples)
  ultimately show ?thesis by blast
qed

subsection \<open>Speeds above the maximum\<close>

text \<open>
  Bounds on a quotient of logarithms from a comparison of integer powers.
\<close>

lemma ln_ratio_lower:
  fixes a x :: real
  assumes "1 < a" "0 < x" "a ^ p < x ^ q" "0 < q"
  shows "real p / real q < ln x / ln a"
proof -
  have a0: "0 < a" using assms(1) by simp
  have la: "0 < ln a" using assms(1) by simp
  have "ln (a ^ p) < ln (x ^ q)"
    using assms a0 by (simp add: ln_less_cancel_iff)
  then have "real p * ln a < real q * ln x"
    using a0 assms(2) by (simp add: ln_realpow)
  then show ?thesis
    using la assms(4) by (simp add: field_simps)
qed

lemma ln_ratio_upper:
  fixes a x :: real
  assumes "1 < a" "0 < x" "x ^ q < a ^ p" "0 < q"
  shows "ln x / ln a < real p / real q"
proof -
  have a0: "0 < a" using assms(1) by simp
  have la: "0 < ln a" using assms(1) by simp
  have "ln (x ^ q) < ln (a ^ p)"
    using assms a0 by (simp add: ln_less_cancel_iff)
  then have "real q * ln x < real p * ln a"
    using a0 assms(2) by (simp add: ln_realpow)
  then show ?thesis
    using la assms(4) by (simp add: field_simps)
qed

lemma log_ratio_1001:
  "163 / 109 < log 10 1001 / log 10 101" "log 10 1001 / log 10 101 < 250 / 167"
proof -
  have e: "log 10 1001 / log 10 101 = ln 1001 / ln (101::real)" by (simp add: log_def)
  show "163 / 109 < log 10 1001 / log 10 101"
    unfolding e using ln_ratio_lower [of 101 1001 163 109] by simp
  show "log 10 1001 / log 10 101 < 250 / 167"
    unfolding e using ln_ratio_upper [of 101 1001 167 250] by simp
qed

lemma log_ratio_111:
  "51 / 50 < log 10 111 / log 10 101" "log 10 111 / log 10 101 < 46 / 45"
proof -
  have e: "log 10 111 / log 10 101 = ln 111 / ln (101::real)" by (simp add: log_def)
  show "51 / 50 < log 10 111 / log 10 101"
    unfolding e using ln_ratio_lower [of 101 111 51 50] by simp
  show "log 10 111 / log 10 101 < 46 / 45"
    unfolding e using ln_ratio_upper [of 101 111 45 46] by simp
qed

lemma normalized_1000: "normalized 1000 = 0.4 + 0.6 * (log 10 1001 / log 10 101)"
  by (simp add: normalized_def MAX_SPEED_def)

lemma normalized_110: "normalized 110 = 0.4 + 0.6 * (log 10 111 / log 10 101)"
  by (simp add: normalized_def MAX_SPEED_def)

text \<open>
  Above 1 no pair of neighbouring stops encloses the value: the loop ends without a
  \<^verbatim>\<open>break\<close>, and the first and the last stop are interpolated with a factor above 1.
\<close>

lemma findStops_above: "1 < v \<Longrightarrow> findStops v GRADIENT_STOPS = None"
  by (simp add: GRADIENT_STOPS_def)

lemma speedColor_above:
  assumes "1 < normalized s"
  shows "speedColor s =
    \<lparr>r = \<lfloor>139 - 139 * normalized s + 1 / 2\<rfloor>, g = \<lfloor>180 * normalized s + 1 / 2\<rfloor>, b = 0\<rparr>"
proof -
  have "bracketStops (normalized s) = (GRADIENT_STOPS ! 0, GRADIENT_STOPS ! 11)"
    using findStops_above [OF assms]
    by (simp add: bracketStops_def) (simp add: GRADIENT_STOPS_def)
  then show ?thesis
    by (simp add: speedColor_def Let_def lerpColor_def Math_round_def GRADIENT_STOPS_def)
qed

lemma speedColor_above_bounds:
  assumes lo: "lo < normalized s" and hi: "normalized s < hi" and one: "1 \<le> lo"
    and r1: "139 * hi \<le> 139 + 1 / 2 - of_int rv"
    and r2: "139 + 1 / 2 - of_int rv - 1 < 139 * lo"
    and g1: "of_int gv - 1 / 2 \<le> 180 * lo"
    and g2: "180 * hi \<le> of_int gv + 1 / 2"
  shows "speedColor s = \<lparr>r = rv, g = gv, b = 0\<rparr>"
proof -
  define v where "v = normalized s"
  have v1: "1 < normalized s" using lo one by linarith
  have rr: "\<lfloor>139 - 139 * v + 1 / 2\<rfloor> = rv"
    unfolding floor_eq_iff using lo hi r1 r2 unfolding v_def [symmetric] by linarith
  have gg: "\<lfloor>180 * v + 1 / 2\<rfloor> = gv"
    unfolding floor_eq_iff using lo hi g1 g2 unfolding v_def [symmetric] by linarith
  show ?thesis
    using speedColor_above [OF v1] rr gg by (simp add: v_def)
qed

lemma normalized_1000_bounds:
  "0.4 + 0.6 * (163 / 109) < normalized 1000" "normalized 1000 < 0.4 + 0.6 * (250 / 167)"
proof -
  define rho :: real where "rho = log 10 1001 / log 10 101"
  have v: "normalized 1000 = 0.4 + 0.6 * rho"
    unfolding rho_def by (rule normalized_1000)
  have "163 / 109 < rho" "rho < 250 / 167"
    unfolding rho_def by (rule log_ratio_1001)+
  then show "0.4 + 0.6 * (163 / 109) < normalized 1000"
    "normalized 1000 < 0.4 + 0.6 * (250 / 167)"
    unfolding v by linarith+
qed

lemma normalized_110_bounds:
  "0.4 + 0.6 * (51 / 50) < normalized 110" "normalized 110 < 0.4 + 0.6 * (46 / 45)"
proof -
  define rho :: real where "rho = log 10 111 / log 10 101"
  have v: "normalized 110 = 0.4 + 0.6 * rho"
    unfolding rho_def by (rule normalized_110)
  have "51 / 50 < rho" "rho < 46 / 45"
    unfolding rho_def by (rule log_ratio_111)+
  then show "0.4 + 0.6 * (51 / 50) < normalized 110"
    "normalized 110 < 0.4 + 0.6 * (46 / 45)"
    unfolding v by linarith+
qed

lemma speedColor_1000: "speedColor 1000 = \<lparr>r = - 41, g = 234, b = 0\<rparr>"
  using normalized_1000_bounds by (rule speedColor_above_bounds) simp_all

lemma speedColor_110: "speedColor 110 = \<lparr>r = - 2, g = 182, b = 0\<rparr>"
  using normalized_110_bounds by (rule speedColor_above_bounds) simp_all

text \<open>
  Where the blend stays inside the unit interval, and where it leaves it: the linear part
  is cut off at 1, the logarithmic part is not.
\<close>

lemma normalized_nonpos: "s \<le> 0 \<Longrightarrow> normalized s = 0"
  by (simp add: normalized_def MAX_SPEED_def max_def)

lemma speedColor_nonpos: "s \<le> 0 \<Longrightarrow> speedColor s = speedColor 0"
  by (simp add: speedColor_def normalized_nonpos normalized_0)

lemma normalized_unit:
  assumes "0 \<le> s" "s \<le> 100"
  shows "0 \<le> normalized s \<and> normalized s \<le> 1"
proof -
  define lg where "lg = (if s > 0 then log 10 (s + 1) / log 10 (100 + 1) else 0)"
  define li where "li = min (max s 0 / 100) 1"
  have n: "normalized s = li * 0.4 + lg * 0.6"
    by (simp add: normalized_def MAX_SPEED_def Let_def lg_def li_def)
  have li: "0 \<le> li" "li \<le> 1" using assms by (simp_all add: li_def)
  have p: "0 < log 10 (101::real)" by simp
  have "0 \<le> log 10 (s + 1)" using assms by simp
  moreover have "log 10 (s + 1) \<le> log 10 101" using assms by simp
  ultimately have lg: "0 \<le> lg" "lg \<le> 1" using p by (simp_all add: lg_def)
  show ?thesis unfolding n using li lg by linarith
qed

lemma normalized_above:
  assumes "100 < s"
  shows "1 < normalized s"
proof -
  have p: "0 < log 10 (101::real)" by simp
  have "log 10 101 < log 10 (s + 1)" using assms by simp
  then have "1 < log 10 (s + 1) / log 10 101" using p by (simp add: field_simps)
  moreover have "normalized s = 0.4 + 0.6 * (log 10 (s + 1) / log 10 101)"
    using assms by (simp add: normalized_def MAX_SPEED_def)
  ultimately show ?thesis by linarith
qed

text \<open>
  C1: for every speed the blend \<open>0.4 \<cdot> linear + 0.6 \<cdot> logarithmic\<close> that
  \<^verbatim>\<open>getSpeedColor\<close> uses to look up the stops is meant to lie in \<open>[0, 1]\<close>. It does
  for speeds up to 100 (\<open>normalized_unit\<close>, \<open>normalized_nonpos\<close>), but the logarithmic
  part has no upper cut: at 110 Mbps the blend is above 1, no pair of stops encloses it,
  and the interpolation between the first and the last stop yields a negative red channel.
\<close>

theorem normalized_exceeds_one_at_110:
  "1 < normalized 110 \<and> findStops (normalized 110) GRADIENT_STOPS = None \<and>
   speedColor 110 = \<lparr>r = - 2, g = 182, b = 0\<rparr>"
proof -
  have "1 < normalized 110" using normalized_110_bounds(1) by simp
  then show ?thesis
    using findStops_above [of "normalized 110"] speedColor_110 by simp
qed

lemma match_rgba_negative_red: "match_rgba ''rgba(-41, 234, 0, 1)'' = None"
  by (simp add: match_here_def digits1_def comma_spaces_def is_digit_def is_space_def)

text \<open>
  C10: at 1000 Mbps \<^verbatim>\<open>getSpeedColorComponents\<close>, and with it
  \<^verbatim>\<open>getHeatmapGradient\<close>, returns the fallback grey \<open>(128, 128, 128)\<close>,
  \<^verbatim>\<open>#808080\<close>: the blend exceeds 1, no pair of stops is found, the red channel
  interpolated between the first and the last stop is negative, and the regular expression
  does not match the text \<^verbatim>\<open>rgba(-41, 234, 0, 1)\<close>. The opacity 1 is printed as
  \<^verbatim>\<open>1\<close>.
\<close>

theorem getSpeedColorComponents_fallback_gray:
  assumes "numStr 1 = ''1''"
  shows "1 < normalized 1000 \<and>
    findStops (normalized 1000) GRADIENT_STOPS = None \<and>
    bracketStops (normalized 1000) =
      (GRADIENT_STOPS ! 0, GRADIENT_STOPS ! (length GRADIENT_STOPS - 1)) \<and>
    r (speedColor 1000) < 0 \<and>
    getSpeedColor numStr 1000 1 = ''rgba(-41, 234, 0, 1)'' \<and>
    match_rgba (getSpeedColor numStr 1000 1) = None \<and>
    getSpeedColorComponents numStr 1000 =
      \<lparr>r = 128, g = 128, b = 128, RGBColorWithHex.hex = ''#808080''\<rparr> \<and>
    getHeatmapGradient numStr 1000 =
      \<lparr>inner = ''rgba(128, 128, 128, 0.9)'', middle = ''rgba(128, 128, 128, 0.5)'',
       outer = ''rgba(128, 128, 128, 0.15)'', hex = ''#808080''\<rparr>"
proof -
  have above: "1 < normalized 1000" using normalized_1000_bounds(1) by simp
  have str: "getSpeedColor numStr 1000 1 = ''rgba(-41, 234, 0, 1)''"
    using assms by (simp add: getSpeedColor_def speedColor_1000 show_int_examples)
  have nomatch: "match_rgba (getSpeedColor numStr 1000 1) = None"
    unfolding str by (rule match_rgba_negative_red)
  have comp: "getSpeedColorComponents numStr 1000 =
      \<lparr>r = 128, g = 128, b = 128, RGBColorWithHex.hex = ''#808080''\<rparr>"
    by (simp add: getSpeedColorComponents_def nomatch)
  have grad: "getHeatmapGradient numStr 1000 =
      \<lparr>inner = ''rgba(128, 128, 128, 0.9)'', middle = ''rgba(128, 128, 128, 0.5)'',
       outer = ''rgba(128, 128, 128, 0.15)'', hex = ''#808080''\<rparr>"
    by (simp add: getHeatmapGradient_def comp show_int_examples)
  have ends: "bracketStops (normalized 1000) =
      (GRADIENT_STOPS ! 0, GRADIENT_STOPS ! (length GRADIENT_STOPS - 1))"
    using findStops_above [OF above] by (simp add: bracketStops_def)
  show ?thesis
    using above findStops_above [OF above] ends str nomatch comp grad
    by (simp add: speedColor_1000)
qed

theorem getSpeedColorComponents_fallback_gray_witness:
  "getSpeedColorComponents (\<lambda>v. show_int \<lfloor>v\<rfloor>) 1000 =
      \<lparr>r = 128, g = 128, b = 128, RGBColorWithHex.hex = ''#808080''\<rparr> \<and>
   getHeatmapGradient (\<lambda>v. show_int \<lfloor>v\<rfloor>) 1000 =
      \<lparr>inner = ''rgba(128, 128, 128, 0.9)'', middle = ''rgba(128, 128, 128, 0.5)'',
       outer = ''rgba(128, 128, 128, 0.15)'', hex = ''#808080''\<rparr>"
proof -
  have one: "(\<lambda>v. show_int \<lfloor>v\<rfloor>) (1::real) = ''1''"
    by (simp add: show_int_def show_nat.simps)
  show ?thesis
    using one getSpeedColorComponents_fallback_gray [of "\<lambda>v. show_int \<lfloor>v\<rfloor>"] by blast
qed

text \<open>At a speed within range the channels are read back from the text.\<close>

lemma getSpeedColorComponents_100:
  assumes a: "numStr 1 = ''1''"
  shows "getSpeedColorComponents numStr 100 =
    \<lparr>r = 0, g = 180, b = 0, RGBColorWithHex.hex = ''#00b400''\<rparr>"
proof -
  have t: "getSpeedColor numStr 100 1 = ''rgba(0, 180, 0, 1)''"
    using a by (simp add: getSpeedColor_def speedColor_100 show_int_examples)
  have m: "match_rgba ''rgba(0, 180, 0, 1)'' = Some (''0'', ''180'', ''0'')"
    by (simp add: match_here_def digits1_def comma_spaces_def is_digit_def is_space_def)
  show ?thesis
    by (simp add: getSpeedColorComponents_def t m parseInt_def digit_value_def padStart2_def
        toString16.simps del: match_rgba.simps)
qed

subsection \<open>Statistics\<close>

lemma foldl_add_sum_list: "foldl (\<lambda>acc v. acc + v) a xs = a + sum_list (xs :: real list)"
  by (induction xs arbitrary: a) simp_all

lemma Math_min_Min: "xs \<noteq> [] \<Longrightarrow> Math_min xs = Min (set xs)"
proof (cases xs)
  case Nil
  assume "xs \<noteq> []"
  with Nil show ?thesis by simp
next
  case (Cons v vs)
  have "foldl min v vs = fold min vs v"
    by (simp add: foldl_conv_fold min.commute)
  also have "\<dots> = Min (set (v # vs))"
    by (rule Min.set_eq_fold [symmetric])
  finally show ?thesis
    using Cons by simp
qed

lemma Math_max_Max: "xs \<noteq> [] \<Longrightarrow> Math_max xs = Max (set xs)"
proof (cases xs)
  case Nil
  assume "xs \<noteq> []"
  with Nil show ?thesis by simp
next
  case (Cons v vs)
  have "foldl max v vs = fold max vs v"
    by (simp add: foldl_conv_fold max.commute)
  also have "\<dots> = Max (set (v # vs))"
    by (rule Max.set_eq_fold [symmetric])
  finally show ?thesis
    using Cons by simp
qed

lemma tiers_partition:
  "length (filter (\<lambda>p. DataPoint.speed p \<ge> 50) ps) +
   length (filter (\<lambda>p. DataPoint.speed p \<ge> 25 \<and> DataPoint.speed p < 50) ps) +
   length (filter (\<lambda>p. DataPoint.speed p \<ge> 10 \<and> DataPoint.speed p < 25) ps) +
   length (filter (\<lambda>p. DataPoint.speed p \<ge> 5 \<and> DataPoint.speed p < 10) ps) +
   length (filter (\<lambda>p. DataPoint.speed p < 5) ps) = length ps"
  by (induction ps) auto

text \<open>
  C4: the tier counts of \<^verbatim>\<open>calculateStats\<close> partition the samples by the thresholds:
  \<^verbatim>\<open>excellent\<close> counts the speeds of at least 50, \<^verbatim>\<open>good\<close> those in \<open>[25, 50)\<close>,
  \<^verbatim>\<open>fair\<close> those in \<open>[10, 25)\<close>, \<^verbatim>\<open>poor\<close> those in \<open>[5, 10)\<close> and
  \<^verbatim>\<open>veryPoor\<close> those below 5, so that the five counts add up to the number of samples.
  For the speeds 0, 4, 9, 24, 49, 99 the counts are \<^verbatim>\<open>veryPoor\<close> 2, \<^verbatim>\<open>poor\<close> 1,
  \<^verbatim>\<open>fair\<close> 1, \<^verbatim>\<open>good\<close> 1, \<^verbatim>\<open>excellent\<close> 1.
\<close>

theorem calculateStats_tier_counts:

  "excellent (calculateStats ps) = length (filter (\<lambda>p. DataPoint.speed p \<ge> 50) ps) \<and>
   good (calculateStats ps) = length (filter (\<lambda>p. 25 \<le> DataPoint.speed p \<and> DataPoint.speed p < 50) ps) \<and>
   fair (calculateStats ps) = length (filter (\<lambda>p. 10 \<le> DataPoint.speed p \<and> DataPoint.speed p < 25) ps) \<and>
   poor (calculateStats ps) = length (filter (\<lambda>p. 5 \<le> DataPoint.speed p \<and> DataPoint.speed p < 10) ps) \<and>
   veryPoor (calculateStats ps) = length (filter (\<lambda>p. DataPoint.speed p < 5) ps) \<and>
   excellent (calculateStats ps) + good (calculateStats ps) + fair (calculateStats ps) +
     poor (calculateStats ps) + veryPoor (calculateStats ps) = length ps \<and>
   (let st = calculateStats (map (\<lambda>v. pt\<lparr>DataPoint.speed := v\<rparr>) [0, 4, 9, 24, 49, 99])
    in veryPoor st = 2 \<and> poor st = 1 \<and> fair st = 1 \<and> good st = 1 \<and> excellent st = 1)"
proof -
  have tiers: "excellent (calculateStats ps) = length (filter (\<lambda>p. DataPoint.speed p \<ge> 50) ps)"
   "good (calculateStats ps) = length (filter (\<lambda>p. 25 \<le> DataPoint.speed p \<and> DataPoint.speed p < 50) ps)"
   "fair (calculateStats ps) = length (filter (\<lambda>p. 10 \<le> DataPoint.speed p \<and> DataPoint.speed p < 25) ps)"
   "poor (calculateStats ps) = length (filter (\<lambda>p. 5 \<le> DataPoint.speed p \<and> DataPoint.speed p < 10) ps)"
   "veryPoor (calculateStats ps) = length (filter (\<lambda>p. DataPoint.speed p < 5) ps)"
    by (simp_all add: calculateStats_def SPEED_THRESHOLDS_def Let_def)
  have total: "excellent (calculateStats ps) + good (calculateStats ps) + fair (calculateStats ps) +
     poor (calculateStats ps) + veryPoor (calculateStats ps) = length ps"
    unfolding tiers using tiers_partition [of ps] by simp
  have ex: "(let st = calculateStats (map (\<lambda>v. pt\<lparr>DataPoint.speed := v\<rparr>) [0, 4, 9, 24, 49, 99])
    in veryPoor st = 2 \<and> poor st = 1 \<and> fair st = 1 \<and> good st = 1 \<and> excellent st = 1)"
    by (simp add: calculateStats_def SPEED_THRESHOLDS_def Let_def)
  show ?thesis using tiers total ex by blast
qed

text \<open>
  C5, as stated: the \<^verbatim>\<open>poor\<close> count of the statistics would cover the Very Poor tier
  \<open>[1, 5)\<close> together with the Poor tier \<open>[5, 10)\<close>. A single sample of speed 3 lies in
  that range and is not counted as \<^verbatim>\<open>poor\<close>.
\<close>

theorem calculateStats_poor_excludes_very_poor:
  "poor (calculateStats [\<lparr>id_point = Inl 1, latitude = 0, longitude = 0, speed = 3, timestamp = '''',
       color = '''', gradient = None, label = None\<rparr>]) = 0 \<and>
   length (filter (\<lambda>p. 1 \<le> DataPoint.speed p \<and> DataPoint.speed p < 10)
     [\<lparr>id_point = Inl 1, latitude = 0, longitude = 0, speed = 3, timestamp = '''',
       color = '''', gradient = None, label = None\<rparr>]) = 1"
  by (simp add: calculateStats_def SPEED_THRESHOLDS_def Let_def)

text \<open>
  C5, amended: \<^verbatim>\<open>calculateStats\<close> keeps two separate counts, \<^verbatim>\<open>poor\<close> for the
  speeds in \<open>[5, 10)\<close> and \<^verbatim>\<open>veryPoor\<close> for the speeds below 5. The two are merged
  where the panel displays them: its Poor class is \<^verbatim>\<open>stats.poor + stats.veryPoor\<close>,
  the number of samples of speed below 10.
\<close>

theorem panelPoor_merges_poor_and_veryPoor:
  "poor (calculateStats ps) = length (filter (\<lambda>p. 5 \<le> DataPoint.speed p \<and> DataPoint.speed p < 10) ps) \<and>
   veryPoor (calculateStats ps) = length (filter (\<lambda>p. DataPoint.speed p < 5) ps) \<and>
   panelPoor ps = poor (calculateStats ps) + veryPoor (calculateStats ps) \<and>
   panelPoor ps = length (filter (\<lambda>p. DataPoint.speed p < 10) ps)"
proof -
  have "length (filter (\<lambda>p. 5 \<le> DataPoint.speed p \<and> DataPoint.speed p < 10) ps) +
        length (filter (\<lambda>p. DataPoint.speed p < 5) ps) =
        length (filter (\<lambda>p. DataPoint.speed p < 10) ps)"
    by (induction ps) auto
  then show ?thesis
    by (simp add: panelPoor_def calculateStats_def SPEED_THRESHOLDS_def Let_def)
qed

text \<open>
  C6: \<^verbatim>\<open>calculateStats\<close> returns the number of samples as \<^verbatim>\<open>count\<close> and, for a
  non-empty list, the arithmetic mean of the speeds as \<^verbatim>\<open>average\<close> and their least and
  greatest value as \<^verbatim>\<open>min\<close> and \<^verbatim>\<open>max\<close>. The empty list gives the statistics
  whose fields are all 0, without any division. Speeds 10 and 30 give count 2, average 20,
  min 10 and max 30.
\<close>

theorem calculateStats_summary:
  "DataPointStats.count (calculateStats ps) = length ps \<and>
   (ps \<noteq> [] \<longrightarrow>
      average (calculateStats ps) = sum_list (map DataPoint.speed ps) / real (length ps) \<and>
      min_speed (calculateStats ps) = Min (set (map DataPoint.speed ps)) \<and>
      max_speed (calculateStats ps) = Max (set (map DataPoint.speed ps))) \<and>
   calculateStats [] =
     \<lparr>DataPointStats.count = 0, average = 0, min_speed = 0, max_speed = 0,
      excellent = 0, good = 0, fair = 0, poor = 0, veryPoor = 0\<rparr> \<and>
   (let st = calculateStats (map (\<lambda>v. pt\<lparr>DataPoint.speed := v\<rparr>) [10, 30])
    in DataPointStats.count st = 2 \<and> average st = 20 \<and> min_speed st = 10 \<and> max_speed st = 30)"
proof -
  have cnt: "DataPointStats.count (calculateStats ps) = length ps"
    by (simp add: calculateStats_def Let_def)
  have ne: "ps \<noteq> [] \<longrightarrow>
      average (calculateStats ps) = sum_list (map DataPoint.speed ps) / real (length ps) \<and>
      min_speed (calculateStats ps) = Min (set (map DataPoint.speed ps)) \<and>
      max_speed (calculateStats ps) = Max (set (map DataPoint.speed ps))"
  proof
    assume a: "ps \<noteq> []"
    then have m: "map DataPoint.speed ps \<noteq> []" by simp
    show "average (calculateStats ps) = sum_list (map DataPoint.speed ps) / real (length ps) \<and>
      min_speed (calculateStats ps) = Min (set (map DataPoint.speed ps)) \<and>
      max_speed (calculateStats ps) = Max (set (map DataPoint.speed ps))"
      using a Math_min_Min [OF m] Math_max_Max [OF m]
      by (simp add: calculateStats_def Let_def foldl_add_sum_list)
  qed
  have emp: "calculateStats [] =
     \<lparr>DataPointStats.count = 0, average = 0, min_speed = 0, max_speed = 0,
      excellent = 0, good = 0, fair = 0, poor = 0, veryPoor = 0\<rparr>"
    by (simp add: calculateStats_def)
  have ex: "(let st = calculateStats (map (\<lambda>v. pt\<lparr>DataPoint.speed := v\<rparr>) [10, 30])
    in DataPointStats.count st = 2 \<and> average st = 20 \<and> min_speed st = 10 \<and> max_speed st = 30)"
    by (simp add: calculateStats_def Let_def)
  show ?thesis using cnt ne emp ex by blast
qed

theorem calculateStats_summary_witness:
  "(let st = calculateStats
      [\<lparr>id_point = Inl 1, latitude = 0, longitude = 0, speed = 5, timestamp = '''',
        color = '''', gradient = None, label = None\<rparr>,
       \<lparr>id_point = Inl 2, latitude = 0, longitude = 0, speed = 7, timestamp = '''',
        color = '''', gradient = None, label = None\<rparr>,
       \<lparr>id_point = Inl 3, latitude = 0, longitude = 0, speed = 3, timestamp = '''',
        color = '''', gradient = None, label = None\<rparr>]
    in DataPointStats.count st = 3 \<and> average st = 5 \<and> min_speed st = 3 \<and> max_speed st = 7)"
  using calculateStats_summary [of "[\<lparr>id_point = Inl 1, latitude = 0, longitude = 0, speed = 5, timestamp = '''',
        color = '''', gradient = None, label = None\<rparr>,
       \<lparr>id_point = Inl 2, latitude = 0, longitude = 0, speed = 7, timestamp = '''',
        color = '''', gradient = None, label = None\<rparr>,
       \<lparr>id_point = Inl 3, latitude = 0, longitude = 0, speed = 3, timestamp = '''',
        color = '''', gradient = None, label = None\<rparr>]"]
  by (simp add: Let_def)

subsection \<open>Histogram of the statistics panel\<close>

lemma bucketIndex_upper: "bucketIndex v \<le> 9"
  by (simp add: bucketIndex_def buckets_def)

lemma bucketIndex_nonneg: "0 \<le> v \<Longrightarrow> 0 \<le> bucketIndex v"
  by (simp add: bucketIndex_def buckets_def MAX_SPEED_def)

lemma length_bump: "length (bump d i) = length d"
  by (simp add: bump_def)

lemma sum_list_bump:
  "0 \<le> i \<Longrightarrow> nat i < length d \<Longrightarrow> sum_list (bump d i) = sum_list d + 1"
  by (simp add: bump_def sum_list_update)

lemma nth_bump:
  "k < length d \<Longrightarrow> bump d i ! k = d ! k + (if i = int k then 1 else 0)"
  by (auto simp add: bump_def nth_list_update)

lemma length_fill:
  "length (foldl (\<lambda>d point. bump d (bucketIndex (DataPoint.speed point))) d0 ps) = length d0"
  by (induction ps arbitrary: d0) (simp_all add: length_bump)

lemma sum_list_fill:
  assumes "\<forall>p\<in>set ps. 0 \<le> DataPoint.speed p" "length d0 = 10"
  shows "sum_list (foldl (\<lambda>d point. bump d (bucketIndex (DataPoint.speed point))) d0 ps) =
         sum_list d0 + length ps"
  using assms
proof (induction ps arbitrary: d0)
  case Nil
  then show ?case by simp
next
  case (Cons p ps)
  have i0: "0 \<le> bucketIndex (DataPoint.speed p)"
    using Cons.prems(1) by (simp add: bucketIndex_nonneg)
  have i9: "nat (bucketIndex (DataPoint.speed p)) < length d0"
    using bucketIndex_upper [of "DataPoint.speed p"] i0 Cons.prems(2) by linarith
  have "sum_list (bump d0 (bucketIndex (DataPoint.speed p))) = sum_list d0 + 1"
    using i0 i9 by (rule sum_list_bump)
  moreover have "length (bump d0 (bucketIndex (DataPoint.speed p))) = 10"
    using Cons.prems(2) by (simp add: length_bump)
  ultimately show ?case
    using Cons.IH [of "bump d0 (bucketIndex (DataPoint.speed p))"] Cons.prems(1) by simp
qed

lemma nth_fill:
  assumes "k < length d0"
  shows "foldl (\<lambda>d point. bump d (bucketIndex (DataPoint.speed point))) d0 ps ! k =
         d0 ! k + length (filter (\<lambda>p. bucketIndex (DataPoint.speed p) = int k) ps)"
  using assms
proof (induction ps arbitrary: d0)
  case Nil
  then show ?case by simp
next
  case (Cons p ps)
  have "k < length (bump d0 (bucketIndex (DataPoint.speed p)))"
    using Cons.prems by (simp add: length_bump)
  then show ?case
    using Cons.IH [of "bump d0 (bucketIndex (DataPoint.speed p))"] Cons.prems
    by (simp add: nth_bump)
qed

lemma length_distribution: "length (distribution ps) = 10"
  by (simp add: distribution_def length_fill buckets_def)

lemma sum_list_distribution:
  "\<forall>p\<in>set ps. 0 \<le> DataPoint.speed p \<Longrightarrow> sum_list (distribution ps) = length ps"
  using sum_list_fill [of ps "replicate buckets 0"]
  by (simp add: distribution_def buckets_def)

lemma nth_distribution:
  "k < 10 \<Longrightarrow>
   distribution ps ! k = length (filter (\<lambda>p. bucketIndex (DataPoint.speed p) = int k) ps)"
  using nth_fill [of k "replicate buckets 0" ps]
  by (simp add: distribution_def buckets_def)

lemma foldl_max_Max: "foldl max (v::nat) vs = Max (set (v # vs))"
proof -
  have "foldl max v vs = fold max vs v"
    by (simp add: foldl_conv_fold max.commute)
  also have "\<dots> = Max (set (v # vs))"
    by (rule Max.set_eq_fold [symmetric])
  finally show ?thesis .
qed

lemma maxCount_Max: "maxCount ps = max 1 (Max (set (distribution ps)))"
proof -
  obtain v vs where d: "distribution ps = v # vs"
    using length_distribution [of ps] by (cases "distribution ps") auto
  have "maxCount ps = Max (set (v # (vs @ [1])))"
    by (simp add: maxCount_def d foldl_max_Max del: set_simps foldl_append)
  also have "\<dots> = Max (insert 1 (set (v # vs)))"
    by (simp add: insert_commute)
  also have "\<dots> = max 1 (Max (set (v # vs)))"
    by (rule Max_insert) simp_all
  finally show ?thesis by (simp add: d)
qed

lemma maxCount_pos: "1 \<le> maxCount ps"
  by (simp add: maxCount_Max)

lemma histogram_nth:
  assumes "ps \<noteq> []" "k < 10"
  shows "histogram numStr ps ! k =
    \<lparr>HistogramBar.count = distribution ps ! k,
     height = (real (distribution ps ! k) / real (maxCount ps)) * 100,
     HistogramBar.speed = ((real k + 0.5) / 10) * 100,
     HistogramBar.color = getSpeedColor numStr (((real k + 0.5) / 10) * 100) 1\<rparr>"
  using assms by (simp add: histogram_def length_distribution buckets_def MAX_SPEED_def)

lemma length_histogram: "ps \<noteq> [] \<Longrightarrow> length (histogram numStr ps) = 10"
  by (simp add: histogram_def length_distribution)


lemma histogram_counts:
  assumes "ps \<noteq> []"
  shows "map HistogramBar.count (histogram numStr ps) = distribution ps"
proof (rule nth_equalityI)
  show "length (map HistogramBar.count (histogram numStr ps)) = length (distribution ps)"
    using assms by (simp add: length_histogram length_distribution)
next
  fix k
  assume "k < length (map HistogramBar.count (histogram numStr ps))"
  then have k: "k < 10" "k < length (histogram numStr ps)"
    using assms by (simp_all add: length_histogram)
  show "map HistogramBar.count (histogram numStr ps) ! k = distribution ps ! k"
    using k histogram_nth [OF assms k(1), of numStr] by simp
qed

text \<open>
  The condition on the speeds is needed: a sample of negative speed gets a negative
  index and is counted in no bucket.
\<close>

lemma distribution_negative_speed:
  "sum_list (distribution [\<lparr>id_point = Inl 0, latitude = 0, longitude = 0, speed = - 5,
     timestamp = [], color = [], gradient = None, label = None\<rparr>]) = 0"
  by (simp add: distribution_def bump_def bucketIndex_def buckets_def MAX_SPEED_def)

text \<open>
  C7: for a non-empty list of samples whose speeds are all at least 0, the histogram of the
  panel has 10 buckets over \<open>[0, MAX_SPEED]\<close>; a sample is counted in the bucket
  \<open>\<lfloor>speed / MAX_SPEED \<cdot> 10\<rfloor>\<close>, cut off at the last bucket, so the counts of the
  buckets add up to the number of samples. The height of a bar is its count divided by the
  greatest count, taken as at least 1 (so the divisor is never 0), times 100.
\<close>

theorem histogram_counts_sum:
  assumes "ps \<noteq> []" and "\<forall>p\<in>set ps. 0 \<le> DataPoint.speed p"
  shows "length (histogram numStr ps) = 10 \<and>
    sum_list (map HistogramBar.count (histogram numStr ps)) = length ps \<and>
    (\<forall>k<10. HistogramBar.count (histogram numStr ps ! k) =
        length (filter (\<lambda>p. min \<lfloor>DataPoint.speed p / MAX_SPEED * 10\<rfloor> 9 = int k) ps)) \<and>
    1 \<le> maxCount ps \<and>
    maxCount ps = max 1 (Max (set (map HistogramBar.count (histogram numStr ps)))) \<and>
    (\<forall>k<10. height (histogram numStr ps ! k) =
        real (HistogramBar.count (histogram numStr ps ! k)) / real (maxCount ps) * 100)"
proof -
  have counts: "map HistogramBar.count (histogram numStr ps) = distribution ps"
    using assms(1) by (rule histogram_counts)
  have bi: "bucketIndex v = min \<lfloor>v / MAX_SPEED * 10\<rfloor> 9" for v
    by (simp add: bucketIndex_def buckets_def)
  have a: "length (histogram numStr ps) = 10"
    using assms(1) by (rule length_histogram)
  have b: "sum_list (map HistogramBar.count (histogram numStr ps)) = length ps"
    unfolding counts using assms(2) by (rule sum_list_distribution)
  have c: "\<forall>k<10. HistogramBar.count (histogram numStr ps ! k) =
        length (filter (\<lambda>p. min \<lfloor>DataPoint.speed p / MAX_SPEED * 10\<rfloor> 9 = int k) ps)"
  proof (intro allI impI)
    fix k :: nat
    assume k: "k < 10"
    show "HistogramBar.count (histogram numStr ps ! k) =
        length (filter (\<lambda>p. min \<lfloor>DataPoint.speed p / MAX_SPEED * 10\<rfloor> 9 = int k) ps)"
      using histogram_nth [OF assms(1) k, of numStr] nth_distribution [OF k, of ps]
      by (simp add: bi)
  qed
  have d: "1 \<le> maxCount ps" by (rule maxCount_pos)
  have e: "maxCount ps = max 1 (Max (set (map HistogramBar.count (histogram numStr ps))))"
    unfolding counts by (rule maxCount_Max)
  have f: "\<forall>k<10. height (histogram numStr ps ! k) =
        real (HistogramBar.count (histogram numStr ps ! k)) / real (maxCount ps) * 100"
  proof (intro allI impI)
    fix k :: nat
    assume k: "k < 10"
    show "height (histogram numStr ps ! k) =
        real (HistogramBar.count (histogram numStr ps ! k)) / real (maxCount ps) * 100"
      using histogram_nth [OF assms(1) k, of numStr] by simp
  qed
  show ?thesis using a b c d e f by blast
qed

theorem histogram_counts_sum_witness:
  "length (histogram (\<lambda>v. show_int \<lfloor>v\<rfloor>)
      (map (\<lambda>v. \<lparr>id_point = Inl 0, latitude = 0, longitude = 0, speed = v, timestamp = [],
                  color = [], gradient = None, label = None\<rparr>) [5, 15, 17, 250])) = 10 \<and>
   sum_list (map HistogramBar.count (histogram (\<lambda>v. show_int \<lfloor>v\<rfloor>)
      (map (\<lambda>v. \<lparr>id_point = Inl 0, latitude = 0, longitude = 0, speed = v, timestamp = [],
                  color = [], gradient = None, label = None\<rparr>) [5, 15, 17, 250]))) = 4 \<and>
   HistogramBar.count (histogram (\<lambda>v. show_int \<lfloor>v\<rfloor>)
      (map (\<lambda>v. \<lparr>id_point = Inl 0, latitude = 0, longitude = 0, speed = v, timestamp = [],
                  color = [], gradient = None, label = None\<rparr>) [5, 15, 17, 250]) ! 1) = 2 \<and>
   HistogramBar.count (histogram (\<lambda>v. show_int \<lfloor>v\<rfloor>)
      (map (\<lambda>v. \<lparr>id_point = Inl 0, latitude = 0, longitude = 0, speed = v, timestamp = [],
                  color = [], gradient = None, label = None\<rparr>) [5, 15, 17, 250]) ! 9) = 1"
proof -
  define ps where "ps = map (\<lambda>v. \<lparr>id_point = Inl 0, latitude = 0, longitude = 0, speed = v,
     timestamp = [], color = [], gradient = None, label = None\<rparr>) [5, 15, 17, 250 :: real]"
  have h1: "ps \<noteq> []" by (simp add: ps_def)
  have h2: "\<forall>p\<in>set ps. 0 \<le> DataPoint.speed p" by (simp add: ps_def)
  note t = histogram_counts_sum [OF h1 h2, of "\<lambda>v. show_int \<lfloor>v\<rfloor>"]
  have len: "length ps = 4" by (simp add: ps_def)
  have k1: "length (filter (\<lambda>p. min \<lfloor>DataPoint.speed p / MAX_SPEED * 10\<rfloor> 9 = int 1) ps) = 2"
    by (simp add: ps_def MAX_SPEED_def)
  have k9: "length (filter (\<lambda>p. min \<lfloor>DataPoint.speed p / MAX_SPEED * 10\<rfloor> 9 = int 9) ps) = 1"
    by (simp add: ps_def MAX_SPEED_def)
  have "length (histogram (\<lambda>v. show_int \<lfloor>v\<rfloor>) ps) = 10 \<and>
    sum_list (map HistogramBar.count (histogram (\<lambda>v. show_int \<lfloor>v\<rfloor>) ps)) = 4 \<and>
    HistogramBar.count (histogram (\<lambda>v. show_int \<lfloor>v\<rfloor>) ps ! 1) = 2 \<and>
    HistogramBar.count (histogram (\<lambda>v. show_int \<lfloor>v\<rfloor>) ps ! 9) = 1"
    using t len k1 k9 by simp
  then show ?thesis unfolding ps_def .
qed

end
